theory Spec2Isabelle
  imports Main "HOL-Library.Char_ord" "HOL-Library.List_Lexorder"
begin

section \<open>Plausible Futures: the ideation backend and the report compiler\<close>

text \<open>
  A shallow embedding of the Express route handlers of \<^verbatim>\<open>backend/routes/sessions.js\<close>,
  \<^verbatim>\<open>backend/routes/contributions.js\<close> and \<^verbatim>\<open>backend/routes/votes.js\<close>, of the two
  database wrappers (\<^verbatim>\<open>db.js\<close> over sql.js, \<^verbatim>\<open>db-postgres.js\<close> over pg) as far as the
  handlers use them, and of the sign-in, the submission, the state changes and
  \<^verbatim>\<open>downloadReport\<close> in the React front end.

  A handler is a function from the request fields it destructures and the store to a
  response and the store it leaves behind. A JSON field that may be absent is a
  \<open>string option\<close>; values read from the clock or the random generator are parameters.
\<close>

subsection \<open>JavaScript strings\<close>

type_synonym timestamp = string

text \<open>
  \<^verbatim>\<open>x || dflt\<close> on a string field; \<^verbatim>\<open>!x\<close> holds of a field that is absent or the empty
  string, and is written out as these two cases in the handlers.
\<close>

fun or_else :: "string option \<Rightarrow> string \<Rightarrow> string" where
  "or_else None dflt = dflt"
| "or_else (Some s) dflt = (if s = [] then dflt else s)"

fun startsWith :: "string \<Rightarrow> string \<Rightarrow> bool" where
  "startsWith _ [] = True"
| "startsWith [] (_ # _) = False"
| "startsWith (c # cs) (p # ps) = (c = p \<and> startsWith cs ps)"

text \<open>\<^verbatim>\<open>String.prototype.includes\<close>: \<open>str_includes s p\<close> holds when \<open>p\<close> occurs in \<open>s\<close>.\<close>

fun str_includes :: "string \<Rightarrow> string \<Rightarrow> bool" where
  "str_includes [] p = (p = [])"
| "str_includes (c # cs) p = (startsWith (c # cs) p \<or> str_includes cs p)"

definition dquote :: string where
  "dquote = [CHR 0x22]"

subsection \<open>The five tables (schema of \<^verbatim>\<open>db.js\<close>, the same in the PostgreSQL migration)\<close>

record session =
  session_id :: string
  session_name :: string
  moderator_id :: string
  session_state :: string
  created_at :: timestamp

record topic =
  topic_id :: string
  t_session_id :: string
  topic_domain :: string
  topic_name :: string
  sort_order :: int

record participant =
  sp_session_id :: string
  participant_id :: string
  display_name :: string
  email :: string
  status :: string
  joined_at :: timestamp
  submitted_at :: "timestamp option"

record contribution =
  contribution_id :: string
  c_session_id :: string
  c_topic_id :: string
  c_participant_id :: string
  current_status :: string
  minor_impact :: string
  disruption :: string
  reimagination :: string
  c_submitted_at :: timestamp

record vote =
  vote_id :: string
  v_contribution_id :: string
  voter_id :: string
  voted_at :: timestamp

text \<open>A table is the list of its rows in insertion order.\<close>

record db =
  sessions :: "session list"
  topics :: "topic list"
  session_participants :: "participant list"
  contributions :: "contribution list"
  votes :: "vote list"

subsection \<open>Responses\<close>

text \<open>
  One constructor for each failure response the handlers send; \<open>http_status\<close> and
  \<open>error_text\<close> give the status code and the \<^verbatim>\<open>error\<close> field of the JSON body.
  \<open>StorageFailure\<close> is the generic 500 of a \<^verbatim>\<open>catch\<close> block: it carries the handler's
  text and the exception's message.
\<close>

datatype error =
    MissingFields string
  | EmptySubmission
  | UnknownState
  | InvalidSessionState string
  | VotingNotEnabled string
  | NotInVotingState string
  | SessionNotFound
  | ContributionNotFound
  | SelfVoteForbidden
  | SessionFinalized
  | DuplicateVote
  | ContributionsConflict
  | StorageFailure string string

fun http_status :: "error \<Rightarrow> nat" where
  "http_status (MissingFields _) = 400"
| "http_status EmptySubmission = 400"
| "http_status UnknownState = 400"
| "http_status (InvalidSessionState _) = 400"
| "http_status (VotingNotEnabled _) = 400"
| "http_status (NotInVotingState _) = 400"
| "http_status SessionNotFound = 404"
| "http_status ContributionNotFound = 404"
| "http_status SelfVoteForbidden = 403"
| "http_status SessionFinalized = 403"
| "http_status DuplicateVote = 409"
| "http_status ContributionsConflict = 409"
| "http_status (StorageFailure _ _) = 500"

definition validStates :: "string list" where
  "validStates = [''setup'', ''published'', ''contributing'', ''voting'', ''voting_locked'', ''final'']"

fun join_with :: "string \<Rightarrow> string list \<Rightarrow> string" where
  "join_with sep [] = []"
| "join_with sep [x] = x"
| "join_with sep (x # y # ys) = x @ sep @ join_with sep (y # ys)"

fun error_text :: "error \<Rightarrow> string" where
  "error_text (MissingFields msg) = msg"
| "error_text EmptySubmission = ''No submissions provided''"
| "error_text UnknownState = ''Invalid state. Must be one of: '' @ join_with '', '' validStates"
| "error_text (InvalidSessionState st) =
     ''Cannot submit contributions. Session is in '' @ dquote @ st @ dquote @ '' state. Must be ''
     @ dquote @ ''published'' @ dquote @ '' or '' @ dquote @ ''contributing'' @ dquote @ ''.''"
| "error_text (VotingNotEnabled st) =
     ''Voting is not enabled. Session is in '' @ dquote @ st @ dquote @ '' state.''"
| "error_text (NotInVotingState st) =
     ''Session is not in voting state. Current state: '' @ dquote @ st @ dquote"
| "error_text SessionNotFound = ''Session not found''"
| "error_text ContributionNotFound = ''Contribution not found''"
| "error_text SelfVoteForbidden = ''Cannot vote on your own contribution''"
| "error_text SessionFinalized = ''Cannot join session. Session is finalized.''"
| "error_text DuplicateVote = ''You have already voted on this contribution''"
| "error_text ContributionsConflict = ''Contributions already submitted for one or more topics''"
| "error_text (StorageFailure what _) = what"

text \<open>A success response is its status code and its payload.\<close>

type_synonym 'a response = "error + (nat \<times> 'a)"

definition response_status :: "'a response \<Rightarrow> nat" where
  "response_status r = (case r of Inl e \<Rightarrow> http_status e | Inr (code, _) \<Rightarrow> code)"

subsection \<open>Statements on the \<^verbatim>\<open>sessions\<close> table\<close>

text \<open>\<^verbatim>\<open>SELECT ... FROM sessions WHERE session_id = ?\<close> with \<^verbatim>\<open>.get\<close>: the first row.\<close>

definition find_session :: "db \<Rightarrow> string \<Rightarrow> session option" where
  "find_session d sid = find (\<lambda>s. session_id s = sid) (sessions d)"

text \<open>\<^verbatim>\<open>UPDATE sessions SET session_state = ? WHERE session_id = ?\<close>.\<close>

definition update_session_state :: "string \<Rightarrow> string \<Rightarrow> db \<Rightarrow> db" where
  "update_session_state st sid d =
     d\<lparr>sessions := map (\<lambda>s. if session_id s = sid then s\<lparr>session_state := st\<rparr> else s) (sessions d)\<rparr>"

subsection \<open>\<^verbatim>\<open>PATCH /api/sessions/:sessionId/state\<close>\<close>

text \<open>
  The handler reads \<^verbatim>\<open>req.params.sessionId\<close> and \<^verbatim>\<open>req.body.state\<close> and nothing else of
  the request. The success payload is \<^verbatim>\<open>{sessionId, state}\<close>.
\<close>

definition setState :: "string \<Rightarrow> string option \<Rightarrow> db \<Rightarrow> (string \<times> string) response \<times> db" where
  "setState sessionId state d =
     (case state of
        None \<Rightarrow> (Inl UnknownState, d)
      | Some st \<Rightarrow>
          if st = [] \<or> st \<notin> set validStates then (Inl UnknownState, d)
          else (case find_session d sessionId of
                  None \<Rightarrow> (Inl SessionNotFound, d)
                | Some _ \<Rightarrow> (Inr (200, (sessionId, st)), update_session_state st sessionId d)))"


subsection \<open>Store exceptions\<close>

text \<open>
  A statement that fails throws; the handlers look only at the exception's message, so
  an exception is its message. The texts below are those of SQLite (sql.js), the engine
  behind \<^verbatim>\<open>db.js\<close>. Tables are taken to satisfy their key constraints, which every
  statement below preserves.
\<close>

type_synonym exn = string

definition sqlite_unique :: "string \<Rightarrow> exn" where
  "sqlite_unique cols = ''UNIQUE constraint failed: '' @ cols"

definition sqlite_foreign_key :: exn where
  "sqlite_foreign_key = ''FOREIGN KEY constraint failed''"

subsection \<open>Statements on \<^verbatim>\<open>session_participants\<close> (sql.js)\<close>

definition find_participant :: "db \<Rightarrow> string \<Rightarrow> string \<Rightarrow> participant option" where
  "find_participant d sid pid =
     find (\<lambda>p. sp_session_id p = sid \<and> participant_id p = pid) (session_participants d)"

text \<open>
  \<^verbatim>\<open>INSERT INTO session_participants\<close>: the primary key is (session_id, participant_id),
  session_id references \<^verbatim>\<open>sessions\<close>, and foreign keys are switched on.
\<close>

definition insert_participant :: "participant \<Rightarrow> db \<Rightarrow> exn + db" where
  "insert_participant p d =
     (if \<exists>q \<in> set (session_participants d).
           sp_session_id q = sp_session_id p \<and> participant_id q = participant_id p
      then Inl (sqlite_unique ''session_participants.session_id, session_participants.participant_id'')
      else if find_session d (sp_session_id p) = None then Inl sqlite_foreign_key
      else Inr (d\<lparr>session_participants := session_participants d @ [p]\<rparr>))"

subsection \<open>\<^verbatim>\<open>POST /api/sessions/:sessionId/join\<close>\<close>

text \<open>The \<^verbatim>\<open>data\<close> object of both success responses; the 200 one has no email and no joinedAt.\<close>

record join_data =
  jd_sessionId :: string
  jd_sessionName :: string
  jd_sessionState :: string
  jd_participantId :: string
  jd_displayName :: string
  jd_email :: "string option"
  jd_status :: string
  jd_joinedAt :: "timestamp option"

definition join :: "string \<Rightarrow> string option \<Rightarrow> string option \<Rightarrow> string option \<Rightarrow> timestamp \<Rightarrow> db
    \<Rightarrow> join_data response \<times> db" where
  "join sessionId participantId displayName email' now d =
     (case participantId of
        None \<Rightarrow> (Inl (MissingFields ''Missing required field: participantId''), d)
      | Some pid \<Rightarrow>
          if pid = [] then (Inl (MissingFields ''Missing required field: participantId''), d)
          else (case find_session d sessionId of
             None \<Rightarrow> (Inl SessionNotFound, d)
           | Some session \<Rightarrow>
               if session_state session = ''final'' then (Inl SessionFinalized, d)
               else (case find_participant d sessionId pid of
                  Some existing \<Rightarrow>
                    (Inr (200, \<lparr>jd_sessionId = sessionId, jd_sessionName = session_name session,
                                jd_sessionState = session_state session, jd_participantId = pid,
                                jd_displayName = or_else displayName pid, jd_email = None,
                                jd_status = ''joined'', jd_joinedAt = None\<rparr>), d)
                | None \<Rightarrow>
                    (case insert_participant
                            \<lparr>sp_session_id = sessionId, participant_id = pid,
                             display_name = or_else displayName pid, email = or_else email' pid,
                             status = ''joined'', joined_at = now, submitted_at = None\<rparr> d of
                       Inl msg \<Rightarrow> (Inl (StorageFailure ''Failed to join session'' msg), d)
                     | Inr d' \<Rightarrow>
                         (Inr (201, \<lparr>jd_sessionId = sessionId, jd_sessionName = session_name session,
                                     jd_sessionState = session_state session, jd_participantId = pid,
                                     jd_displayName = or_else displayName pid,
                                     jd_email = Some (or_else email' pid),
                                     jd_status = ''joined'', jd_joinedAt = Some now\<rparr>), d')))))"

subsection \<open>Statements on \<^verbatim>\<open>contributions\<close> and \<^verbatim>\<open>votes\<close> (sql.js)\<close>

text \<open>\<^verbatim>\<open>SELECT ... FROM contributions WHERE contribution_id = ? AND session_id = ?\<close>.\<close>

definition find_contribution :: "db \<Rightarrow> string \<Rightarrow> string \<Rightarrow> contribution option" where
  "find_contribution d cid sid =
     find (\<lambda>c. contribution_id c = cid \<and> c_session_id c = sid) (contributions d)"

text \<open>\<^verbatim>\<open>SELECT vote_id FROM votes WHERE contribution_id = ? AND voter_id = ?\<close>.\<close>

definition find_vote :: "db \<Rightarrow> string \<Rightarrow> string \<Rightarrow> vote option" where
  "find_vote d cid vid = find (\<lambda>v. v_contribution_id v = cid \<and> voter_id v = vid) (votes d)"

text \<open>\<^verbatim>\<open>SELECT COUNT(*) FROM votes WHERE contribution_id = ?\<close>.\<close>

definition count_votes :: "db \<Rightarrow> string \<Rightarrow> nat" where
  "count_votes d cid = length (filter (\<lambda>v. v_contribution_id v = cid) (votes d))"

text \<open>
  \<^verbatim>\<open>INSERT INTO votes\<close>: vote_id is the primary key, (contribution_id, voter_id) is
  UNIQUE, contribution_id references \<^verbatim>\<open>contributions\<close>.
\<close>

definition insert_vote :: "vote \<Rightarrow> db \<Rightarrow> exn + db" where
  "insert_vote v d =
     (if \<exists>w \<in> set (votes d). vote_id w = vote_id v
      then Inl (sqlite_unique ''votes.vote_id'')
      else if \<exists>w \<in> set (votes d). v_contribution_id w = v_contribution_id v \<and> voter_id w = voter_id v
      then Inl (sqlite_unique ''votes.contribution_id, votes.voter_id'')
      else if \<not> (\<exists>c \<in> set (contributions d). contribution_id c = v_contribution_id v)
      then Inl sqlite_foreign_key
      else Inr (d\<lparr>votes := votes d @ [v]\<rparr>))"

subsection \<open>\<^verbatim>\<open>POST /api/sessions/:sessionId/votes\<close>\<close>

text \<open>
  The handler in three parts, in the order of its text: the check of the body, the
  chain of reads on the store, each of which may answer and return, and the
  \<^verbatim>\<open>try\<close> block that inserts the row and counts. \<open>voteId\<close> and \<open>now\<close> are the generated id
  and the clock. The success payload is \<^verbatim>\<open>{contributionId, newVoteCount}\<close>.
\<close>

definition castVote_preconditions :: "string \<Rightarrow> string \<Rightarrow> string \<Rightarrow> db \<Rightarrow> error option" where
  "castVote_preconditions sessionId cid vid d =
     (case find_session d sessionId of
        None \<Rightarrow> Some SessionNotFound
      | Some session \<Rightarrow>
          if session_state session \<noteq> ''voting'' then Some (VotingNotEnabled (session_state session))
          else (case find_contribution d cid sessionId of
             None \<Rightarrow> Some ContributionNotFound
           | Some contribution \<Rightarrow>
               if c_participant_id contribution = vid then Some SelfVoteForbidden
               else (case find_vote d cid vid of
                  Some existingVote \<Rightarrow> Some DuplicateVote
                | None \<Rightarrow> None)))"

definition castVote_insert :: "string \<Rightarrow> string \<Rightarrow> string \<Rightarrow> timestamp \<Rightarrow> db
    \<Rightarrow> (string \<times> nat) response \<times> db" where
  "castVote_insert cid vid voteId now d =
     (case insert_vote \<lparr>vote_id = voteId, v_contribution_id = cid, voter_id = vid, voted_at = now\<rparr> d of
        Inl msg \<Rightarrow>
          if str_includes msg ''UNIQUE constraint failed'' then (Inl DuplicateVote, d)
          else (Inl (StorageFailure ''Failed to record vote'' msg), d)
      | Inr d' \<Rightarrow> (Inr (200, (cid, count_votes d' cid)), d'))"

definition castVote :: "string \<Rightarrow> string option \<Rightarrow> string option \<Rightarrow> string \<Rightarrow> timestamp \<Rightarrow> db
    \<Rightarrow> (string \<times> nat) response \<times> db" where
  "castVote sessionId contributionId voterId voteId now d =
     (case (contributionId, voterId) of
        (Some cid, Some vid) \<Rightarrow>
          if cid = [] \<or> vid = []
          then (Inl (MissingFields ''Missing required fields: contributionId, voterId''), d)
          else (case castVote_preconditions sessionId cid vid d of
                  Some e \<Rightarrow> (Inl e, d)
                | None \<Rightarrow> castVote_insert cid vid voteId now d)
      | _ \<Rightarrow> (Inl (MissingFields ''Missing required fields: contributionId, voterId''), d))"

text \<open>The rows of the vote table for one (contribution, voter) pair.\<close>

definition vote_rows :: "db \<Rightarrow> string \<Rightarrow> string \<Rightarrow> vote list" where
  "vote_rows d cid vid = filter (\<lambda>v. v_contribution_id v = cid \<and> voter_id v = vid) (votes d)"


subsection \<open>The PostgreSQL wrapper (\<^verbatim>\<open>db-postgres.js\<close>)\<close>

text \<open>
  \<^verbatim>\<open>contributions.js\<close> imports \<^verbatim>\<open>db-postgres.js\<close>. Its \<^verbatim>\<open>prepare(sql)\<close> keeps the text of
  the statement as it is, and \<^verbatim>\<open>get\<close>, \<^verbatim>\<open>run\<close> and \<^verbatim>\<open>all\<close> pass that text and their
  arguments to \<^verbatim>\<open>pool.query\<close>. The two handlers prepare four statements, and each of them
  marks its parameters with question marks:
  \<^verbatim>\<open>SELECT session_id, session_state FROM sessions WHERE session_id = ?\<close>,
  \<^verbatim>\<open>INSERT INTO contributions (...) VALUES (?, ?, ?, ?, ?, ?, ?, ?, ?) ON CONFLICT ... DO UPDATE ...\<close>,
  \<^verbatim>\<open>UPDATE session_participants SET status = 'submitted', submitted_at = ? WHERE session_id = ? AND participant_id = ?\<close>
  and the listing query \<^verbatim>\<open>SELECT ... WHERE c.session_id = ? GROUP BY ... ORDER BY ...\<close>.
\<close>

datatype statement = SelectSession | InsertContribution | UpdateParticipant | SelectContributions

text \<open>
  \<^verbatim>\<open>pool.query\<close>. PostgreSQL numbers its parameters (\<^verbatim>\<open>$1\<close>, \<^verbatim>\<open>$2\<close>, ...) and does not
  parse a question mark in their place: the promise of each of the four statements is
  rejected, and no row is read or written. \<open>msg stmt\<close> is the message of the exception
  the promise of \<open>stmt\<close> is rejected with. A result would be the rows, the row count and
  the store the statement leaves.
\<close>

definition pool_query :: "(statement \<Rightarrow> exn) \<Rightarrow> statement \<Rightarrow> string list \<Rightarrow> db
    \<Rightarrow> exn + ('r list \<times> nat \<times> db)" where
  "pool_query msg stmt params d = Inl (msg stmt)"

text \<open>\<^verbatim>\<open>get\<close> returns \<^verbatim>\<open>result.rows[0]\<close>, \<^verbatim>\<open>run\<close> returns \<^verbatim>\<open>{changes: result.rowCount}\<close>, \<^verbatim>\<open>all\<close> returns \<^verbatim>\<open>result.rows\<close>.\<close>

definition pg_get :: "(statement \<Rightarrow> exn) \<Rightarrow> statement \<Rightarrow> string list \<Rightarrow> db \<Rightarrow> exn + 'r option" where
  "pg_get msg stmt params d =
     (case pool_query msg stmt params d of
        Inl e \<Rightarrow> Inl e
      | Inr (rows, rowCount, d') \<Rightarrow> Inr (case rows of [] \<Rightarrow> None | r # _ \<Rightarrow> Some r))"

definition pg_run :: "(statement \<Rightarrow> exn) \<Rightarrow> statement \<Rightarrow> string list \<Rightarrow> db \<Rightarrow> exn + (nat \<times> db)" where
  "pg_run msg stmt params d =
     (case (pool_query msg stmt params d :: exn + (unit list \<times> nat \<times> db)) of
        Inl e \<Rightarrow> Inl e
      | Inr (rows, rowCount, d') \<Rightarrow> Inr (rowCount, d'))"


text \<open>
  What becomes of a request. The handlers are \<^verbatim>\<open>async\<close> functions: either the handler
  sends a response, or an \<^verbatim>\<open>await\<close> outside every \<^verbatim>\<open>try\<close> throws, and then the handler's
  promise is rejected with that exception and the handler has sent nothing.
\<close>

datatype 'a outcome = Responded "'a response" | Rejected exn

subsection \<open>\<^verbatim>\<open>POST /api/sessions/:sessionId/contributions\<close>\<close>

text \<open>The row that \<^verbatim>\<open>SELECT session_id, session_state\<close> returns.\<close>

record session_row =
  sr_session_id :: string
  sr_session_state :: string

record submission =
  sub_rowId :: string
  sub_currentStatus :: "string option"
  sub_minorImpact :: "string option"
  sub_disruption :: "string option"
  sub_reimagination :: "string option"
  sub_submittedAt :: "timestamp option"

text \<open>
  The nine arguments of \<^verbatim>\<open>insertContribution.run\<close> in iteration \<open>i\<close> of the loop: \<open>gen i\<close>
  is the id generated there and \<open>clock i\<close> the time read there.
\<close>

definition insert_params :: "(nat \<Rightarrow> string) \<Rightarrow> (nat \<Rightarrow> timestamp) \<Rightarrow> string \<Rightarrow> string \<Rightarrow> nat
    \<Rightarrow> submission \<Rightarrow> string list" where
  "insert_params gen clock sessionId pid i s =
     [gen i, sessionId, sub_rowId s, pid,
      or_else (sub_currentStatus s) [],
      or_else (sub_minorImpact s) [],
      or_else (sub_disruption s) [],
      or_else (sub_reimagination s) [],
      or_else (sub_submittedAt s) (clock i)]"

text \<open>
  The \<^verbatim>\<open>for\<close> loop: one \<^verbatim>\<open>run\<close> for each submission, each a \<^verbatim>\<open>pool.query\<close> of its own.
  When one throws, the loop is left for the \<^verbatim>\<open>catch\<close> block with the store as the
  statements before it made it.
\<close>

fun insert_all :: "(statement \<Rightarrow> exn) \<Rightarrow> (nat \<Rightarrow> string) \<Rightarrow> (nat \<Rightarrow> timestamp) \<Rightarrow> string \<Rightarrow> string
    \<Rightarrow> submission list \<Rightarrow> nat \<Rightarrow> db \<Rightarrow> (exn + nat) \<times> db" where
  "insert_all msg gen clock sessionId pid [] savedCount d = (Inr savedCount, d)"
| "insert_all msg gen clock sessionId pid (s # rest) savedCount d =
     (case pg_run msg InsertContribution (insert_params gen clock sessionId pid savedCount s) d of
        Inl e \<Rightarrow> (Inl e, d)
      | Inr (changes, d') \<Rightarrow> insert_all msg gen clock sessionId pid rest (savedCount + 1) d')"

text \<open>The \<^verbatim>\<open>catch\<close> block of the handler.\<close>

definition catch_save :: "exn \<Rightarrow> nat response" where
  "catch_save e =
     (if str_includes e ''UNIQUE constraint failed'' then Inl ContributionsConflict
      else Inl (StorageFailure ''Failed to save contributions'' e))"

text \<open>
  The handler. \<open>submissions\<close> is \<open>None\<close> when the field is missing or not an array. The
  two checks of the body come first; the lookup of the session and the check of its
  state stand before the \<^verbatim>\<open>try\<close> block, so that an exception of the lookup is not
  caught. The success payload is \<^verbatim>\<open>contributionsCount\<close>.
\<close>

definition submitAll :: "(statement \<Rightarrow> exn) \<Rightarrow> string \<Rightarrow> string option \<Rightarrow> submission list option
    \<Rightarrow> (nat \<Rightarrow> string) \<Rightarrow> (nat \<Rightarrow> timestamp) \<Rightarrow> db \<Rightarrow> nat outcome \<times> db" where
  "submitAll msg sessionId participantId submissions gen clock d =
     (case (participantId, submissions) of
        (Some pid, Some subs) \<Rightarrow>
          if pid = []
          then (Responded (Inl (MissingFields ''Missing required fields: participantId, submissions'')), d)
          else if length subs = 0 then (Responded (Inl EmptySubmission), d)
          else (case (pg_get msg SelectSession [sessionId] d :: exn + session_row option) of
             Inl e \<Rightarrow> (Rejected e, d)
           | Inr None \<Rightarrow> (Responded (Inl SessionNotFound), d)
           | Inr (Some session) \<Rightarrow>
               if sr_session_state session \<noteq> ''published'' \<and> sr_session_state session \<noteq> ''contributing''
               then (Responded (Inl (InvalidSessionState (sr_session_state session))), d)
               else (case insert_all msg gen clock sessionId pid subs 0 d of
                  (Inl e, d') \<Rightarrow> (Responded (catch_save e), d')
                | (Inr savedCount, d') \<Rightarrow>
                    (case pg_run msg UpdateParticipant [clock savedCount, sessionId, pid] d' of
                       Inl e \<Rightarrow> (Responded (catch_save e), d')
                     | Inr (changes, d'') \<Rightarrow> (Responded (Inr (200, savedCount)), d''))))
      | _ \<Rightarrow> (Responded (Inl (MissingFields ''Missing required fields: participantId, submissions'')), d))"

text \<open>The rows of the contribution table for one (session, topic, participant) triple.\<close>

definition contribution_rows :: "db \<Rightarrow> string \<Rightarrow> string \<Rightarrow> string \<Rightarrow> contribution list" where
  "contribution_rows d sid tid pid =
     filter (\<lambda>c. c_session_id c = sid \<and> c_topic_id c = tid \<and> c_participant_id c = pid)
       (contributions d)"

subsection \<open>JavaScript objects as maps\<close>






subsection \<open>\<^verbatim>\<open>GET /api/sessions/:sessionId/contributions\<close>\<close>

text \<open>An entry of a topic's history: the objects the listing builds and the front end keeps.\<close>

record entry =
  e_id :: string
  e_participantId :: string
  e_author :: string
  e_email :: string
  e_currentStatus :: string
  e_minorImpact :: string
  e_disruption :: string
  e_reimagination :: string
  e_votes :: int
  e_voters :: "string list"
  e_submittedAt :: timestamp

text \<open>A row of the listing query, and a topic with its history as the listing returns it.\<close>

record listing_row =
  lr_contribution_id :: string
  lr_session_id :: string
  lr_topic_id :: string
  lr_topic_name :: string
  lr_domain :: string
  lr_participant_id :: string
  lr_author_name :: "string option"
  lr_current_status :: string
  lr_minor_impact :: string
  lr_disruption :: string
  lr_reimagination :: string
  lr_submitted_at :: timestamp
  lr_votes :: int






subsection \<open>JavaScript numbers\<close>

text \<open>
  A vote count is a Number, that is a double. An integer-valued double is written as
  the integer it holds; \<open>2\<^sup>1\<^sup>0\<^sup>2\<^sup>4\<close> and its negative, which no double holds, stand for
  \<^verbatim>\<open>Infinity\<close> and \<^verbatim>\<open>-Infinity\<close>. \<open>js_round\<close> is the double nearest to an integer: up to
  \<open>2\<^sup>5\<^sup>3\<close> the integer itself, beyond it the 53 leading bits rounded to nearest, ties to the
  even one, or an infinity. \<open>js_add\<close> is \<^verbatim>\<open>+\<close> on a sum, which may have become infinite,
  and a finite count.
\<close>

function bit_length :: "int \<Rightarrow> nat" where
  "bit_length n = (if n \<le> 0 then 0 else Suc (bit_length (n div 2)))"
  by pat_completeness auto

termination
  by (relation "measure nat") auto

declare bit_length.simps [simp del]

definition js_infinity :: int where
  "js_infinity = 2 ^ 1024"

definition js_round :: "int \<Rightarrow> int" where
  "js_round x =
     (if \<bar>x\<bar> \<le> 2 ^ 53 then x
      else (let q = 2 ^ (bit_length \<bar>x\<bar> - 53);
                m = \<bar>x\<bar> div q;
                r = \<bar>x\<bar> mod q;
                y = (if q < 2 * r \<or> (2 * r = q \<and> odd m) then m + 1 else m) * q
            in if js_infinity \<le> y then sgn x * js_infinity else sgn x * y))"

definition js_add :: "int \<Rightarrow> int \<Rightarrow> int" where
  "js_add a b = (if js_infinity \<le> \<bar>a\<bar> then a else js_round (a + b))"

subsection \<open>Signing in and submitting (front end)\<close>




record fuser =
  u_email :: string
  u_displayName :: string
  u_participantId :: string


record draft =
  d_currentStatus :: string
  d_minorImpact :: string
  d_disruption :: string
  d_reimagination :: string

definition defaultDraft :: draft where
  "defaultDraft = \<lparr>d_currentStatus = [], d_minorImpact = [], d_disruption = [], d_reimagination = []\<rparr>"

text \<open>A topic of the table as the front end keeps it, in the component and in storage.\<close>

record row =
  r_id :: string
  r_topic :: string
  r_domain :: string
  r_locked :: bool
  r_draft :: draft
  r_history :: "entry list"

text \<open>
  \<^verbatim>\<open>handleSubmitTable\<close> maps the rows of the component: a locked row whose draft has a
  non-empty cell gets a new entry, built from the user and the draft, after the
  entries of the other participants. \<open>entryId\<close> and \<open>now\<close> are the id generated and the
  time read at that row.
\<close>

definition hasContribution :: "draft \<Rightarrow> bool" where
  "hasContribution dr \<longleftrightarrow>
     d_currentStatus dr \<noteq> [] \<or> d_minorImpact dr \<noteq> [] \<or> d_disruption dr \<noteq> [] \<or> d_reimagination dr \<noteq> []"

definition newEntry :: "fuser \<Rightarrow> string \<Rightarrow> timestamp \<Rightarrow> draft \<Rightarrow> entry" where
  "newEntry user entryId now dr =
     \<lparr>e_id = entryId, e_participantId = u_participantId user, e_author = u_displayName user,
      e_email = u_email user,
      e_currentStatus = d_currentStatus dr, e_minorImpact = d_minorImpact dr,
      e_disruption = d_disruption dr, e_reimagination = d_reimagination dr,
      e_votes = 0, e_voters = [], e_submittedAt = now\<rparr>"

definition submit_row :: "fuser \<Rightarrow> string \<Rightarrow> timestamp \<Rightarrow> row \<Rightarrow> row" where
  "submit_row user entryId now r =
     (if \<not> r_locked r then r
      else if \<not> hasContribution (r_draft r) then r
      else r\<lparr>r_history := filter (\<lambda>e. e_participantId e \<noteq> u_participantId user) (r_history r)
                             @ [newEntry user entryId now (r_draft r)],
             r_draft := defaultDraft\<rparr>)"

text \<open>
  The saving of the submissions is a placeholder that succeeds. The rows stored in the
  session metadata are then merged with the updated rows: the stored history is kept,
  and the user's entries of the updated row with the same id are appended.
\<close>

definition merge_row :: "fuser \<Rightarrow> row list \<Rightarrow> row \<Rightarrow> row" where
  "merge_row user updatedRows existingRow =
     (case find (\<lambda>r. r_id r = r_id existingRow) updatedRows of
        None \<Rightarrow> existingRow
      | Some updatedRow \<Rightarrow>
          existingRow\<lparr>r_history := r_history existingRow
                        @ filter (\<lambda>e. e_participantId e = u_participantId user) (r_history updatedRow)\<rparr>)"

subsection \<open>\<^verbatim>\<open>downloadReport\<close> (front end)\<close>

record moderator =
  m_participantId :: string
  m_displayName :: string
  m_email :: string

record fparticipant =
  fp_participantId :: string
  fp_displayName :: string
  fp_email :: string
  fp_joinedAt :: timestamp

record fsession =
  fs_id :: string
  fs_name :: string
  fs_createdAt :: timestamp
  fs_moderator :: moderator
  fs_participants :: "fparticipant list option"

text \<open>
  The session metadata kept in \<^verbatim>\<open>localStorage\<close>, as far as the report and the state
  changes touch it; \<open>sm_metadata_sessionState\<close> is \<open>None\<close> when the stored object has no
  \<^verbatim>\<open>metadata\<close>.
\<close>

record session_meta =
  sm_rows :: "row list option"
  sm_participants :: "fparticipant list option"
  sm_sessionState :: string
  sm_metadata_sessionState :: "string option"
  sm_lastUpdated :: timestamp

record report_participant =
  rp_displayName :: string
  rp_email :: string
  rp_joinedAt :: timestamp

record report_contribution =
  rc_author :: string
  rc_authorEmail :: string
  rc_currentStatus :: string
  rc_minorImpact :: string
  rc_disruption :: string
  rc_reimagination :: string
  rc_votes :: int
  rc_submittedAt :: timestamp

record report_topic =
  rt_domain :: string
  rt_topic :: string
  rt_totalVotes :: int
  rt_contributions :: "report_contribution list"

record report =
  rep_id :: string
  rep_name :: string
  rep_createdAt :: timestamp
  rep_moderator_displayName :: string
  rep_moderator_email :: string
  rep_participants :: "report_participant list"
  rep_generatedAt :: timestamp
  rep_topics :: "report_topic list"

text \<open>
  \<^verbatim>\<open>xs.sort((a, b) => key(b) - key(a))\<close>. \<^verbatim>\<open>Array.prototype.sort\<close> is stable. The
  difference of two doubles is zero only when they are equal, and has the sign of their
  order otherwise; two equal infinities give \<^verbatim>\<open>NaN\<close>, which the sort takes for zero. The
  comparator therefore orders by the key, largest first: the result is the stable sort
  by the negated key.
\<close>

definition sort_desc :: "('a \<Rightarrow> int) \<Rightarrow> 'a list \<Rightarrow> 'a list" where
  "sort_desc key xs = sort_key (\<lambda>x. - key x) xs"

text \<open>
  The object built for one history entry (\<^verbatim>\<open>x || ""\<close> and \<^verbatim>\<open>x || 0\<close> leave a string
  and a number as they are), and the one built for one row: \<^verbatim>\<open>reduce\<close> adds the votes
  from the left, starting at 0.
\<close>

definition report_contribution_of :: "entry \<Rightarrow> report_contribution" where
  "report_contribution_of e =
     \<lparr>rc_author = e_author e, rc_authorEmail = e_email e,
      rc_currentStatus = e_currentStatus e, rc_minorImpact = e_minorImpact e,
      rc_disruption = e_disruption e, rc_reimagination = e_reimagination e,
      rc_votes = e_votes e, rc_submittedAt = e_submittedAt e\<rparr>"

definition report_topic_of :: "row \<Rightarrow> report_topic" where
  "report_topic_of r =
     (let contributions = map report_contribution_of (r_history r);
          totalVotes = foldl (\<lambda>sum c. js_add sum (rc_votes c)) 0 contributions
      in \<lparr>rt_domain = r_domain r, rt_topic = r_topic r, rt_totalVotes = totalVotes,
          rt_contributions = sort_desc rc_votes contributions\<rparr>)"

definition report_topics :: "row list \<Rightarrow> report_topic list" where
  "report_topics allRows = sort_desc rt_totalVotes (map report_topic_of allRows)"

definition report_payload :: "fsession \<Rightarrow> row list \<Rightarrow> fparticipant list \<Rightarrow> timestamp \<Rightarrow> report" where
  "report_payload currentSession allRows participants now =
     \<lparr>rep_id = fs_id currentSession,
      rep_name = fs_name currentSession,
      rep_createdAt = fs_createdAt currentSession,
      rep_moderator_displayName = m_displayName (fs_moderator currentSession),
      rep_moderator_email = m_email (fs_moderator currentSession),
      rep_participants =
        map (\<lambda>p. \<lparr>rp_displayName = fp_displayName p, rp_email = fp_email p,
                   rp_joinedAt = fp_joinedAt p\<rparr>) participants,
      rep_generatedAt = now,
      rep_topics = report_topics allRows\<rparr>"

definition getSessionMetaKey :: "string \<Rightarrow> string option" where
  "getSessionMetaKey sessionId =
     (if sessionId = [] then None else Some (''ideation-session-meta-'' @ sessionId))"

text \<open>
  \<open>storage key\<close> is the parsed metadata under \<open>key\<close>, \<open>None\<close> when there is none or it
  does not parse. \<open>rows\<close> is the component's state. Without a current session the
  function only sets the message.
\<close>

definition downloadReport :: "fsession option \<Rightarrow> row list \<Rightarrow> (string \<Rightarrow> session_meta option)
    \<Rightarrow> timestamp \<Rightarrow> string + report" where
  "downloadReport currentSession rows storage now =
     (case currentSession of
        None \<Rightarrow> Inl ''No active session to download.''
      | Some cs \<Rightarrow>
          (let participants = (case fs_participants cs of None \<Rightarrow> [] | Some ps \<Rightarrow> ps);
               sessionMeta = (case getSessionMetaKey (fs_id cs) of
                                None \<Rightarrow> None | Some metaKey \<Rightarrow> storage metaKey)
           in case sessionMeta of
                None \<Rightarrow> Inr (report_payload cs rows participants now)
              | Some m \<Rightarrow>
                  Inr (report_payload cs
                         (case sm_rows m of None \<Rightarrow> rows | Some rs \<Rightarrow> rs)
                         (case sm_participants m of None \<Rightarrow> participants | Some ps \<Rightarrow> ps)
                         now)))"

subsection \<open>State changes in the front end\<close>

text \<open>
  The part of the component's state that \<^verbatim>\<open>enableVoting\<close>, \<^verbatim>\<open>lockVotes\<close> and
  \<^verbatim>\<open>publishFinalView\<close> read and write; \<open>app_user\<close> is the participant id of the signed-in
  user.
\<close>

record app =
  app_currentSession :: "fsession option"
  app_user :: "string option"
  app_sessionState :: string
  app_storage :: "string \<Rightarrow> session_meta option"
  app_message :: string
  app_showCompiled :: bool

definition updateSessionState :: "string \<Rightarrow> timestamp \<Rightarrow> app \<Rightarrow> app" where
  "updateSessionState newState now a =
     (case app_currentSession a of
        None \<Rightarrow> a
      | Some cs \<Rightarrow>
          (case getSessionMetaKey (fs_id cs) of
             None \<Rightarrow> a
           | Some metaKey \<Rightarrow>
               (case app_storage a metaKey of
                  None \<Rightarrow> a
                | Some parsed \<Rightarrow>
                    a\<lparr>app_storage := (app_storage a)(metaKey := Some (parsed
                           \<lparr>sm_sessionState := newState,
                            sm_metadata_sessionState :=
                              map_option (\<lambda>_. newState) (sm_metadata_sessionState parsed),
                            sm_lastUpdated := now\<rparr>)),
                      app_sessionState := newState\<rparr>)))"

definition enableVoting :: "timestamp \<Rightarrow> app \<Rightarrow> app" where
  "enableVoting now a =
     (case (app_currentSession a, app_user a) of
        (Some cs, Some u) \<Rightarrow>
          if m_participantId (fs_moderator cs) \<noteq> u
          then a\<lparr>app_message := ''Only the moderator can enable voting.''\<rparr>
          else if app_sessionState a \<noteq> ''published'' \<and> app_sessionState a \<noteq> ''contributing''
          then a\<lparr>app_message := ''Voting can only be enabled after contributions are submitted.''\<rparr>
          else (updateSessionState ''voting'' now a)
                 \<lparr>app_message :=
                    ''Voting enabled! Participants will be able to view contributions and vote.''\<rparr>
      | _ \<Rightarrow> a\<lparr>app_message := ''Session or user not found.''\<rparr>)"

definition lockVotes :: "timestamp \<Rightarrow> app \<Rightarrow> app" where
  "lockVotes now a =
     (case (app_currentSession a, app_user a) of
        (Some cs, Some u) \<Rightarrow>
          if m_participantId (fs_moderator cs) \<noteq> u
          then a\<lparr>app_message := ''Only the moderator can lock votes.''\<rparr>
          else if app_sessionState a \<noteq> ''voting''
          then a\<lparr>app_message := ''Votes can only be locked when voting is active.''\<rparr>
          else (updateSessionState ''voting_locked'' now a)
                 \<lparr>app_message := ''Votes locked! No more voting allowed.''\<rparr>
      | _ \<Rightarrow> a\<lparr>app_message := ''Session or user not found.''\<rparr>)"

definition publishFinalView :: "timestamp \<Rightarrow> app \<Rightarrow> app" where
  "publishFinalView now a =
     (case (app_currentSession a, app_user a) of
        (Some cs, Some u) \<Rightarrow>
          if m_participantId (fs_moderator cs) \<noteq> u
          then a\<lparr>app_message := ''Only the moderator can publish the final view.''\<rparr>
          else if app_sessionState a \<noteq> ''voting_locked''
          then a\<lparr>app_message := ''Final view can only be published after votes are locked.''\<rparr>
          else (updateSessionState ''final'' now a)
                 \<lparr>app_showCompiled := True,
                  app_message := ''Final view published! All participants can now view results and download the report.''\<rparr>
      | _ \<Rightarrow> a\<lparr>app_message := ''Session or user not found.''\<rparr>)"

text \<open>A front-end state in which \<open>u1@x.com\<close> is signed in to the voting session of \<open>m@x.com\<close>.\<close>

definition app1 :: app where
  "app1 = \<lparr>app_currentSession =
             Some \<lparr>fs_id = ''s1'', fs_name = ''T1'', fs_createdAt = ''2024-01-01T00:00:00.000Z'',
                   fs_moderator = \<lparr>m_participantId = ''m@x.com'', m_displayName = ''Moderator'',
                                    m_email = ''m@x.com''\<rparr>,
                   fs_participants = None\<rparr>,
           app_user = Some ''u1@x.com'', app_sessionState = ''voting'',
           app_storage = (\<lambda>key. None), app_message = [], app_showCompiled = False\<rparr>"

subsection \<open>Notions used in the statements\<close>

text \<open>Rewriting who moderates each session: used to say that a handler never reads it.\<close>

definition set_moderators :: "(string \<Rightarrow> string) \<Rightarrow> db \<Rightarrow> db" where
  "set_moderators f d =
     d\<lparr>sessions := map (\<lambda>s. s\<lparr>moderator_id := f (session_id s)\<rparr>) (sessions d)\<rparr>"

subsection \<open>Example stores\<close>

text \<open>A store with one session, moderated by \<open>m@x.com\<close>, in state \<open>voting\<close>.\<close>

definition db0 :: db where
  "db0 = \<lparr>sessions = [\<lparr>session_id = ''s1'', session_name = ''T1'', moderator_id = ''m@x.com'',
                         session_state = ''voting'', created_at = ''2024-01-01T00:00:00.000Z''\<rparr>],
          topics = [], session_participants = [], contributions = [], votes = []\<rparr>"

text \<open>
  The scenario of the specification after the first vote: session \<open>s1\<close> in state
  \<open>voting\<close>, one topic, the moderator and two participants, the contribution \<open>c1\<close> of
  \<open>u1@x.com\<close> and the vote of \<open>u2@x.com\<close> on it.
\<close>

definition db1 :: db where
  "db1 = \<lparr>sessions = [\<lparr>session_id = ''s1'', session_name = ''T1'', moderator_id = ''m@x.com'',
                         session_state = ''voting'', created_at = ''2024-01-01T00:00:00.000Z''\<rparr>],
          topics = [\<lparr>topic_id = ''t1'', t_session_id = ''s1'', topic_domain = ''Finance'',
                      topic_name = ''Fraud'', sort_order = 0\<rparr>],
          session_participants =
            [\<lparr>sp_session_id = ''s1'', participant_id = ''m@x.com'', display_name = ''Moderator'',
              email = ''m@x.com'', status = ''joined'', joined_at = ''2024-01-01T00:00:00.000Z'',
              submitted_at = None\<rparr>,
             \<lparr>sp_session_id = ''s1'', participant_id = ''u1@x.com'', display_name = ''u1@x.com'',
              email = ''u1@x.com'', status = ''submitted'', joined_at = ''2024-01-01T00:01:00.000Z'',
              submitted_at = Some ''2024-01-01T00:02:00.000Z''\<rparr>,
             \<lparr>sp_session_id = ''s1'', participant_id = ''u2@x.com'', display_name = ''u2@x.com'',
              email = ''u2@x.com'', status = ''joined'', joined_at = ''2024-01-01T00:01:30.000Z'',
              submitted_at = None\<rparr>],
          contributions =
            [\<lparr>contribution_id = ''c1'', c_session_id = ''s1'', c_topic_id = ''t1'',
              c_participant_id = ''u1@x.com'', current_status = ''A'', minor_impact = [],
              disruption = [], reimagination = [], c_submitted_at = ''2024-01-01T00:02:00.000Z''\<rparr>],
          votes = [\<lparr>vote_id = ''v1'', v_contribution_id = ''c1'', voter_id = ''u2@x.com'',
                    voted_at = ''2024-01-01T00:03:00.000Z''\<rparr>]\<rparr>"

text \<open>The rows of the roster for one (session, participant) pair.\<close>

definition roster_rows :: "db \<Rightarrow> string \<Rightarrow> string \<Rightarrow> participant list" where
  "roster_rows d sid pid =
     filter (\<lambda>p. sp_session_id p = sid \<and> participant_id p = pid) (session_participants d)"

text \<open>
  The same tables while contributions are open and before any vote, and two batches of
  one item each for the topic \<open>t1\<close>.
\<close>

definition db2 :: db where
  "db2 = (update_session_state ''published'' ''s1'' db1)\<lparr>votes := []\<rparr>"

definition item1 :: submission where
  "item1 = \<lparr>sub_rowId = ''t1'', sub_currentStatus = Some ''A'', sub_minorImpact = None,
             sub_disruption = None, sub_reimagination = None, sub_submittedAt = None\<rparr>"

definition item2 :: submission where
  "item2 = \<lparr>sub_rowId = ''t1'', sub_currentStatus = Some ''B'', sub_minorImpact = Some ''small'',
             sub_disruption = None, sub_reimagination = None,
             sub_submittedAt = Some ''2024-01-01T00:05:00.000Z''\<rparr>"

subsection \<open>Example rows\<close>

definition entry_at :: "string \<Rightarrow> int \<Rightarrow> timestamp \<Rightarrow> entry" where
  "entry_at who n t =
     \<lparr>e_id = ''h-'' @ who, e_participantId = who, e_author = who, e_email = who,
      e_currentStatus = ''A'', e_minorImpact = [], e_disruption = [], e_reimagination = [],
      e_votes = n, e_voters = [], e_submittedAt = t\<rparr>"

definition row_of :: "string \<Rightarrow> entry list \<Rightarrow> row" where
  "row_of t h = \<lparr>r_id = t, r_topic = t, r_domain = ''Finance'', r_locked = True,
                 r_draft = defaultDraft, r_history = h\<rparr>"

text \<open>
  Topics whose total votes are 15, 30 and 5; a topic whose contributions have 3, 10 and 5
  votes; and a topic with three contributions of which the first and the last have one
  vote each.
\<close>

definition rows_15_30_5 :: "row list" where
  "rows_15_30_5 =
     [row_of ''Fraud'' [entry_at ''u1'' 15 ''2024-01-01T00:00:00.000Z''],
      row_of ''Credit'' [entry_at ''u1'' 10 ''2024-01-01T00:00:00.000Z'',
                         entry_at ''u2'' 20 ''2024-01-01T00:01:00.000Z''],
      row_of ''Audit'' [entry_at ''u1'' 5 ''2024-01-01T00:00:00.000Z'']]"

definition row_3_10_5 :: row where
  "row_3_10_5 =
     row_of ''Fraud'' [entry_at ''u1'' 3 ''2024-01-01T00:00:00.000Z'',
                       entry_at ''u2'' 10 ''2024-01-01T00:01:00.000Z'',
                       entry_at ''u3'' 5 ''2024-01-01T00:02:00.000Z'']"

definition row_1_2_1 :: row where
  "row_1_2_1 =
     row_of ''Fraud'' [entry_at ''u1'' 1 ''2024-01-01T00:00:00.000Z'',
                       entry_at ''u2'' 2 ''2024-01-01T00:01:00.000Z'',
                       entry_at ''u3'' 1 ''2024-01-01T00:02:00.000Z'']"





subsection \<open>An example submission in the front end\<close>








section \<open>Theorems\<close>

lemma find_session_update:
  "find_session (update_session_state st sid d) sid' =
     map_option (\<lambda>s. if session_id s = sid then s\<lparr>session_state := st\<rparr> else s) (find_session d sid')"
proof -
  have "find (\<lambda>s. session_id s = sid')
          (map (\<lambda>s. if session_id s = sid then s\<lparr>session_state := st\<rparr> else s) xs)
        = map_option (\<lambda>s. if session_id s = sid then s\<lparr>session_state := st\<rparr> else s)
            (find (\<lambda>s. session_id s = sid') xs)" for xs :: "session list"
    by (induction xs) auto
  then show ?thesis
    by (simp add: find_session_def update_session_state_def)
qed

lemma find_session_id: "find_session d sid = Some s \<Longrightarrow> session_id s = sid"
  by (auto simp: find_session_def find_Some_iff)

lemma empty_not_valid: "[] \<notin> set validStates"
  by (simp add: validStates_def)

lemma find_session_set_moderators:
  "find_session (set_moderators f d) sid =
     map_option (\<lambda>s. s\<lparr>moderator_id := f (session_id s)\<rparr>) (find_session d sid)"
proof -
  have "find (\<lambda>s. session_id s = sid) (map (\<lambda>s. s\<lparr>moderator_id := f (session_id s)\<rparr>) xs)
      = map_option (\<lambda>s. s\<lparr>moderator_id := f (session_id s)\<rparr>) (find (\<lambda>s. session_id s = sid) xs)"
    for xs :: "session list"
    by (induction xs) auto
  then show ?thesis
    by (simp add: find_session_def set_moderators_def)
qed

lemma update_session_state_set_moderators:
  "update_session_state st sid (set_moderators f d) = set_moderators f (update_session_state st sid d)"
  by (simp add: update_session_state_def set_moderators_def comp_def if_distrib cong: if_cong)

subsection \<open>Session state machine\<close>

text \<open>
  C10. \<open>setState\<close> enforces no transition ordering. For every store, every session that
  exists in it (whatever its current state) and every one of the six labels, the call
  answers 200 with the requested label and the stored state of that session is the
  requested label afterwards. A label outside the six, or no label, is answered with
  the invalid-state 400 and the store is left as it was. The only responses are the
  success, the invalid-state 400 and the session-not-found 404: there is no
  invalid-transition response.
\<close>

theorem setState_any_transition:
  "(st \<in> set validStates \<longrightarrow> find_session d sid \<noteq> None \<longrightarrow>
      fst (setState sid (Some st) d) = Inr (200, (sid, st)) \<and>
      map_option session_state (find_session (snd (setState sid (Some st) d)) sid) = Some st)
   \<and> (st \<notin> set validStates \<longrightarrow> setState sid (Some st) d = (Inl UnknownState, d))
   \<and> setState sid None d = (Inl UnknownState, d)
   \<and> (fst (setState sid state d) = Inl UnknownState
        \<or> fst (setState sid state d) = Inl SessionNotFound
        \<or> (\<exists>l \<in> set validStates. fst (setState sid state d) = Inr (200, (sid, l))))"
  using empty_not_valid
  by (auto simp: setState_def find_session_update dest: find_session_id split: option.splits)

theorem setState_any_transition_witness:
  "''setup'' \<in> set validStates \<and> find_session db0 ''s1'' \<noteq> None \<and>
   map_option session_state (find_session db0 ''s1'') = Some ''voting'' \<and>
   fst (setState ''s1'' (Some ''setup'') db0) = Inr (200, (''s1'', ''setup'')) \<and>
   map_option session_state (find_session (snd (setState ''s1'' (Some ''setup'') db0)) ''s1'')
     = Some ''setup'' \<and>
   ''archived'' \<notin> set validStates \<and>
   setState ''s1'' (Some ''archived'') db0 = (Inl UnknownState, db0)"
  using setState_any_transition [of "''setup''" db0 "''s1''"]
    setState_any_transition [of "''archived''" db0 "''s1''"]
  by (simp add: validStates_def db0_def find_session_def)

text \<open>
  C3, as the claim states it, fails. The request of \<open>setState\<close> names a session and a
  label and carries no caller; in the store \<open>db0\<close> session \<open>s1\<close> is moderated by
  \<open>m@x.com\<close>, and the request to finalise it is answered 200 and moves the stored state
  from \<open>voting\<close> to \<open>final\<close>, whoever sent it.
\<close>

theorem setState_ungated_counterexample:
  "moderator_id (hd (sessions db0)) = ''m@x.com'' \<and>
   fst (setState ''s1'' (Some ''final'') db0) = Inr (200, (''s1'', ''final'')) \<and>
   map session_state (sessions db0) = [''voting''] \<and>
   map session_state (sessions (snd (setState ''s1'' (Some ''final'') db0))) = [''final'']"
  by (simp add: setState_def validStates_def db0_def find_session_def update_session_state_def)

lemma front_end_gate:
  assumes "app_currentSession a = Some cs" and "app_user a = Some u"
    and "m_participantId (fs_moderator cs) \<noteq> u"
  shows "enableVoting now a = a\<lparr>app_message := ''Only the moderator can enable voting.''\<rparr>"
    and "lockVotes now a = a\<lparr>app_message := ''Only the moderator can lock votes.''\<rparr>"
    and "publishFinalView now a
           = a\<lparr>app_message := ''Only the moderator can publish the final view.''\<rparr>"
  using assms by (simp_all add: enableVoting_def lockVotes_def publishFinalView_def)

lemma setState_set_moderators:
  "setState sid state (set_moderators f d) =
     (fst (setState sid state d), set_moderators f (snd (setState sid state d)))"
  by (auto simp: setState_def find_session_set_moderators update_session_state_set_moderators
        split: option.splits)

lemma setState_never_403: "response_status (fst (setState sid state d)) \<noteq> 403"
  by (auto simp: setState_def response_status_def split: option.splits)

text \<open>
  C3, amended. The moderator gate is in the front end only. There, enabling voting,
  locking votes and publishing the final view compare the signed-in user with the
  session's moderator, and for anyone else they set the only-the-moderator message and
  change nothing besides. \<open>setState\<close> has no such gate: it never reads who moderates a
  session (rewriting the moderator of every session in any way changes neither the
  response nor the state written), and no response of \<open>setState\<close> has status 403.
\<close>

theorem moderator_gate_front_end_only:
  "(app_currentSession a = Some cs \<and> app_user a = Some u \<and> m_participantId (fs_moderator cs) \<noteq> u
      \<longrightarrow> enableVoting now a = a\<lparr>app_message := ''Only the moderator can enable voting.''\<rparr>
        \<and> lockVotes now a = a\<lparr>app_message := ''Only the moderator can lock votes.''\<rparr>
        \<and> publishFinalView now a
            = a\<lparr>app_message := ''Only the moderator can publish the final view.''\<rparr>)
   \<and> setState sid state (set_moderators f d) =
       (fst (setState sid state d), set_moderators f (snd (setState sid state d)))
   \<and> response_status (fst (setState sid state d)) \<noteq> 403"
  using front_end_gate [of a cs u now] setState_set_moderators [of sid state f d]
    setState_never_403 [of sid state d]
  by simp

theorem moderator_gate_front_end_only_witness:
  "app_currentSession app1 \<noteq> None \<and> app_user app1 = Some ''u1@x.com''
   \<and> map_option (\<lambda>cs. m_participantId (fs_moderator cs)) (app_currentSession app1) = Some ''m@x.com''
   \<and> enableVoting ''t'' app1 = app1\<lparr>app_message := ''Only the moderator can enable voting.''\<rparr>
   \<and> lockVotes ''t'' app1 = app1\<lparr>app_message := ''Only the moderator can lock votes.''\<rparr>
   \<and> publishFinalView ''t'' app1
       = app1\<lparr>app_message := ''Only the moderator can publish the final view.''\<rparr>
   \<and> app_sessionState (lockVotes ''t'' app1) = ''voting''"
  using moderator_gate_front_end_only [of app1 "the (app_currentSession app1)" "''u1@x.com''" "''t''"]
  by (simp add: app1_def)

subsection \<open>Vote ledger\<close>

lemma unique_text: "str_includes (sqlite_unique cols) ''UNIQUE constraint failed''"
  by (simp add: sqlite_unique_def)

text \<open>
  C4. For a \<open>castVote\<close> call that supplies both ids, the checks run in the order session,
  state, contribution, self-vote, duplicate, and the first one that fails decides the
  response, whatever the later ones would say: no session gives the not-found 404; a
  session in another state than \<open>voting\<close> gives the voting-not-enabled 400, whose text
  quotes the current state; no such contribution in the session gives the
  contribution-not-found 404; the voter being the contribution's participant gives the
  self-vote 403; an existing row for the pair gives the duplicate 409. The store is
  unchanged in each case.
\<close>

theorem castVote_precondition_order:
  assumes "cid \<noteq> []" and "vid \<noteq> []"
  shows "(find_session d sid = None \<longrightarrow>
            castVote sid (Some cid) (Some vid) voteId now d = (Inl SessionNotFound, d))
    \<and> (\<forall>s. find_session d sid = Some s \<and> session_state s \<noteq> ''voting'' \<longrightarrow>
            castVote sid (Some cid) (Some vid) voteId now d = (Inl (VotingNotEnabled (session_state s)), d))
    \<and> (\<forall>s. find_session d sid = Some s \<and> session_state s = ''voting'' \<and> find_contribution d cid sid = None \<longrightarrow>
            castVote sid (Some cid) (Some vid) voteId now d = (Inl ContributionNotFound, d))
    \<and> (\<forall>s c. find_session d sid = Some s \<and> session_state s = ''voting'' \<and> find_contribution d cid sid = Some c
               \<and> c_participant_id c = vid \<longrightarrow>
            castVote sid (Some cid) (Some vid) voteId now d = (Inl SelfVoteForbidden, d))
    \<and> (\<forall>s c. find_session d sid = Some s \<and> session_state s = ''voting'' \<and> find_contribution d cid sid = Some c
               \<and> c_participant_id c \<noteq> vid \<and> find_vote d cid vid \<noteq> None \<longrightarrow>
            castVote sid (Some cid) (Some vid) voteId now d = (Inl DuplicateVote, d))
    \<and> error_text (VotingNotEnabled st) = ''Voting is not enabled. Session is in '' @ dquote @ st @ dquote @ '' state.''"
  using assms by (auto simp: castVote_def castVote_preconditions_def)

theorem castVote_precondition_order_witness:
  "''c1'' \<noteq> [] \<and> ''u2@x.com'' \<noteq> [] \<and> ''nope'' \<noteq> [] \<and> ''u1@x.com'' \<noteq> []
   \<and> find_session db1 ''zz'' = None
   \<and> castVote ''zz'' (Some ''nope'') (Some ''u1@x.com'') ''v2'' ''t'' db1 = (Inl SessionNotFound, db1)
   \<and> map_option session_state (find_session (update_session_state ''published'' ''s1'' db1) ''s1'')
        = Some ''published''
   \<and> castVote ''s1'' (Some ''nope'') (Some ''u1@x.com'') ''v2'' ''t''
        (update_session_state ''published'' ''s1'' db1)
      = (Inl (VotingNotEnabled ''published''), update_session_state ''published'' ''s1'' db1)
   \<and> find_contribution db1 ''nope'' ''s1'' = None
   \<and> castVote ''s1'' (Some ''nope'') (Some ''u1@x.com'') ''v2'' ''t'' db1 = (Inl ContributionNotFound, db1)
   \<and> map_option c_participant_id (find_contribution db1 ''c1'' ''s1'') = Some ''u1@x.com''
   \<and> castVote ''s1'' (Some ''c1'') (Some ''u1@x.com'') ''v2'' ''t'' db1 = (Inl SelfVoteForbidden, db1)
   \<and> find_vote db1 ''c1'' ''u2@x.com'' \<noteq> None
   \<and> castVote ''s1'' (Some ''c1'') (Some ''u2@x.com'') ''v2'' ''t'' db1 = (Inl DuplicateVote, db1)"
  using castVote_precondition_order [of "''nope''" "''u1@x.com''" db1 "''zz''" "''v2''" "''t''"]
    castVote_precondition_order [of "''nope''" "''u1@x.com''"
      "update_session_state ''published'' ''s1'' db1" "''s1''" "''v2''" "''t''"]
    castVote_precondition_order [of "''nope''" "''u1@x.com''" db1 "''s1''" "''v2''" "''t''"]
    castVote_precondition_order [of "''c1''" "''u1@x.com''" db1 "''s1''" "''v2''" "''t''"]
    castVote_precondition_order [of "''c1''" "''u2@x.com''" db1 "''s1''" "''v2''" "''t''"]
  by (simp add: db1_def find_session_def find_contribution_def find_vote_def update_session_state_def)

lemma vote_rows_insert:
  assumes "insert_vote v d = Inr d'"
  shows "votes d' = votes d @ [v]" and "vote_rows d (v_contribution_id v) (voter_id v) = []"
    and "sessions d' = sessions d" and "contributions d' = contributions d"
  using assms by (auto simp: insert_vote_def vote_rows_def filter_empty_conv split: if_splits)

lemma vote_rows_insert_le:
  assumes "insert_vote v d = Inr d'" and "length (vote_rows d c u) \<le> 1"
  shows "length (vote_rows d' c u) \<le> 1"
proof (cases "v_contribution_id v = c \<and> voter_id v = u")
  case True
  with vote_rows_insert(1,2)[OF assms(1)] show ?thesis by (simp add: vote_rows_def)
next
  case False
  with vote_rows_insert(1)[OF assms(1)] assms(2) show ?thesis by (auto simp: vote_rows_def)
qed

lemma castVote_insert_rows_le:
  "length (vote_rows d c u) \<le> 1 \<Longrightarrow> length (vote_rows (snd (castVote_insert cid vid voteId now d)) c u) \<le> 1"
  by (auto simp: castVote_insert_def split: sum.splits dest: vote_rows_insert_le)

lemma castVote_rows_le:
  "length (vote_rows d c u) \<le> 1 \<Longrightarrow> length (vote_rows (snd (castVote sid cidO vidO voteId now d)) c u) \<le> 1"
  using castVote_insert_rows_le [of d c u]
  by (auto simp: castVote_def split: option.splits)

lemma insert_vote_duplicate:
  assumes "vote_rows d cid vid \<noteq> []"
  shows "\<exists>cols. insert_vote \<lparr>vote_id = voteId, v_contribution_id = cid, voter_id = vid, voted_at = now\<rparr> d
           = Inl (sqlite_unique cols)"
  using assms by (auto simp: insert_vote_def vote_rows_def filter_empty_conv)

lemma castVote_insert_duplicate:
  assumes "vote_rows d cid vid \<noteq> []"
  shows "castVote_insert cid vid voteId now d = (Inl DuplicateVote, d)"
  using insert_vote_duplicate[OF assms, of voteId now]
  by (auto simp: castVote_insert_def unique_text)

lemma find_vote_rows: "find_vote d cid vid = None \<longleftrightarrow> vote_rows d cid vid = []"
  by (auto simp: find_vote_def vote_rows_def find_None_iff filter_empty_conv)

lemma castVote_fails_when_voted:
  assumes "vote_rows d cid vid \<noteq> []"
  shows "\<exists>e. castVote sid (Some cid) (Some vid) voteId now d = (Inl e, d)"
  using assms
  by (auto simp: castVote_def castVote_preconditions_def find_vote_rows castVote_insert_duplicate
      split: option.splits)

lemma castVote_success:
  assumes "castVote sid (Some cid) (Some vid) voteId now d = (Inr r, d')"
  shows "cid \<noteq> []" "vid \<noteq> []" "castVote_preconditions sid cid vid d = None"
    "insert_vote \<lparr>vote_id = voteId, v_contribution_id = cid, voter_id = vid, voted_at = now\<rparr> d = Inr d'"
  using assms
  by (auto simp: castVote_def castVote_insert_def split: option.splits if_splits sum.splits)

lemma castVote_twice:
  assumes "castVote sid (Some cid) (Some vid) voteId now d = (Inr r, d')"
  shows "vote_rows d cid vid = []" and "length (vote_rows d' cid vid) = 1"
    and "castVote sid (Some cid) (Some vid) voteId' now' d' = (Inl DuplicateVote, d')"
proof -
  note s = castVote_success[OF assms]
  note i = vote_rows_insert[OF s(4)]
  from i(2) show a: "vote_rows d cid vid = []" by simp
  from i(1) a show b: "length (vote_rows d' cid vid) = 1" by (simp add: vote_rows_def)
  have fs: "find_session d' sid = find_session d sid" using i(3) by (simp add: find_session_def)
  have fc: "find_contribution d' cid sid = find_contribution d cid sid"
    using i(4) by (simp add: find_contribution_def)
  have fv: "find_vote d' cid vid \<noteq> None" using b by (auto simp: find_vote_rows)
  from s(3) fs fc fv have "castVote_preconditions sid cid vid d' = Some DuplicateVote"
    by (auto simp: castVote_preconditions_def split: option.splits if_splits)
  with s(1,2) show "castVote sid (Some cid) (Some vid) voteId' now' d' = (Inl DuplicateVote, d')"
    by (simp add: castVote_def)
qed

text \<open>
  C2. At most one vote row for a (contribution, voter) pair. Every \<open>castVote\<close> call, and
  every insert step run on its own (a call whose duplicate check read the store before
  another call's row was committed), keeps the number of rows of any pair at most one.
  Once a row for the pair is stored, a call for the pair never succeeds and leaves the
  store unchanged, and the insert step answers the duplicate-vote 409, not the generic
  500: the engine's UNIQUE message is caught and translated. After a successful call
  the pair has exactly one row and the same call again answers the duplicate-vote 409.
\<close>

theorem vote_exactly_once:
  "(length (vote_rows d c u) \<le> 1 \<longrightarrow>
       length (vote_rows (snd (castVote sid cidO vidO voteId now d)) c u) \<le> 1
     \<and> length (vote_rows (snd (castVote_insert cid vid voteId now d)) c u) \<le> 1)
   \<and> (vote_rows d cid vid \<noteq> [] \<longrightarrow>
        (\<exists>e. castVote sid (Some cid) (Some vid) voteId now d = (Inl e, d))
      \<and> castVote_insert cid vid voteId now d = (Inl DuplicateVote, d))
   \<and> (\<forall>r d'. castVote sid (Some cid) (Some vid) voteId now d = (Inr r, d') \<longrightarrow>
        vote_rows d cid vid = [] \<and> length (vote_rows d' cid vid) = 1
      \<and> castVote sid (Some cid) (Some vid) voteId' now' d' = (Inl DuplicateVote, d'))"
proof (intro conjI impI allI)
  assume "length (vote_rows d c u) \<le> 1"
  then show "length (vote_rows (snd (castVote sid cidO vidO voteId now d)) c u) \<le> 1"
    and "length (vote_rows (snd (castVote_insert cid vid voteId now d)) c u) \<le> 1"
    by (rule castVote_rows_le, rule castVote_insert_rows_le)
next
  assume "vote_rows d cid vid \<noteq> []"
  then show "\<exists>e. castVote sid (Some cid) (Some vid) voteId now d = (Inl e, d)"
    and "castVote_insert cid vid voteId now d = (Inl DuplicateVote, d)"
    by (rule castVote_fails_when_voted, rule castVote_insert_duplicate)
next
  fix r d'
  assume "castVote sid (Some cid) (Some vid) voteId now d = (Inr r, d')"
  then show "vote_rows d cid vid = []" and "length (vote_rows d' cid vid) = 1"
    and "castVote sid (Some cid) (Some vid) voteId' now' d' = (Inl DuplicateVote, d')"
    by (rule castVote_twice)+
qed

theorem vote_exactly_once_witness:
  "length (vote_rows db1 ''c1'' ''u2@x.com'') \<le> 1
   \<and> vote_rows db1 ''c1'' ''u2@x.com'' \<noteq> []
   \<and> castVote_insert ''c1'' ''u2@x.com'' ''v2'' ''t'' db1 = (Inl DuplicateVote, db1)
   \<and> length (vote_rows (snd (castVote ''s1'' (Some ''c1'') (Some ''u2@x.com'') ''v2'' ''t'' db1)) ''c1'' ''u2@x.com'') \<le> 1
   \<and> castVote ''s1'' (Some ''c1'') (Some ''u2@x.com'') ''v1'' ''2024-01-01T00:03:00.000Z'' (db1\<lparr>votes := []\<rparr>)
       = (Inr (200, (''c1'', 1)), db1)
   \<and> castVote ''s1'' (Some ''c1'') (Some ''u2@x.com'') ''v2'' ''t'' db1 = (Inl DuplicateVote, db1)"
  using vote_exactly_once [of db1 "''c1''" "''u2@x.com''" "''s1''" "Some ''c1''" "Some ''u2@x.com''"
      "''v2''" "''t''" "''c1''" "''u2@x.com''" "''v2''" "''t''"]
    vote_exactly_once [of "db1\<lparr>votes := []\<rparr>" "''c1''" "''u2@x.com''" "''s1''" "Some ''c1''" "Some ''u2@x.com''"
      "''v1''" "''2024-01-01T00:03:00.000Z''" "''c1''" "''u2@x.com''" "''v2''" "''t''"]
  by (simp add: db1_def vote_rows_def castVote_def castVote_preconditions_def castVote_insert_def
      insert_vote_def find_session_def find_contribution_def find_vote_def count_votes_def
      sqlite_unique_def)

subsection \<open>Participant roster\<close>

lemma find_append_case:
  "find P (xs @ ys) = (case find P xs of None \<Rightarrow> find P ys | Some x \<Rightarrow> Some x)"
  by (induction xs) auto

lemma find_participant_rows: "find_participant d sid pid = None \<longleftrightarrow> roster_rows d sid pid = []"
  by (auto simp: find_participant_def roster_rows_def find_None_iff filter_empty_conv)

lemma join_existing:
  assumes "pid \<noteq> []" and "find_session d sid = Some s" and "session_state s \<noteq> ''final''"
    and "roster_rows d sid pid \<noteq> []"
  shows "join sid (Some pid) dn em now d =
    (Inr (200, \<lparr>jd_sessionId = sid, jd_sessionName = session_name s,
                jd_sessionState = session_state s, jd_participantId = pid,
                jd_displayName = or_else dn pid, jd_email = None,
                jd_status = ''joined'', jd_joinedAt = None\<rparr>), d)"
  using assms by (auto simp: join_def find_participant_rows split: option.splits)

lemma join_new:
  assumes "pid \<noteq> []" and "find_session d sid = Some s" and "session_state s \<noteq> ''final''"
    and "roster_rows d sid pid = []"
  shows "join sid (Some pid) dn em now d =
    (Inr (201, \<lparr>jd_sessionId = sid, jd_sessionName = session_name s,
                jd_sessionState = session_state s, jd_participantId = pid,
                jd_displayName = or_else dn pid, jd_email = Some (or_else em pid),
                jd_status = ''joined'', jd_joinedAt = Some now\<rparr>),
     d\<lparr>session_participants := session_participants d @
        [\<lparr>sp_session_id = sid, participant_id = pid, display_name = or_else dn pid,
          email = or_else em pid, status = ''joined'', joined_at = now, submitted_at = None\<rparr>]\<rparr>)"
proof -
  from assms(4) have "find_participant d sid pid = None" by (simp add: find_participant_rows)
  moreover from assms(4)
  have "\<not> (\<exists>q \<in> set (session_participants d). sp_session_id q = sid \<and> participant_id q = pid)"
    by (auto simp: roster_rows_def filter_empty_conv)
  ultimately show ?thesis
    using assms(1-3) by (simp add: join_def insert_participant_def)
qed

lemma join_rows_one:
  assumes "pid \<noteq> []" and "find_session d sid = Some s" and "session_state s \<noteq> ''final''"
    and "length (roster_rows d sid pid) \<le> 1"
  shows "length (roster_rows (snd (join sid (Some pid) dn em now d)) sid pid) = 1"
    and "find_session (snd (join sid (Some pid) dn em now d)) sid = Some s"
    and "\<exists>code data. fst (join sid (Some pid) dn em now d) = Inr (code, data)"
proof -
  show "length (roster_rows (snd (join sid (Some pid) dn em now d)) sid pid) = 1"
  proof (cases "roster_rows d sid pid = []")
    case True
    then show ?thesis
      using join_new[OF assms(1-3) True, of dn em now] by (simp add: roster_rows_def)
  next
    case False
    then have "length (roster_rows d sid pid) = 1" using assms(4) by (cases "roster_rows d sid pid") auto
    then show ?thesis using join_existing[OF assms(1-3) False, of dn] by simp
  qed
  show "find_session (snd (join sid (Some pid) dn em now d)) sid = Some s"
    using join_new[OF assms(1-3), of dn em now] join_existing[OF assms(1-3), of dn] assms(2)
    by (cases "roster_rows d sid pid = []") (simp_all add: find_session_def)
  show "\<exists>code data. fst (join sid (Some pid) dn em now d) = Inr (code, data)"
    using join_new[OF assms(1-3), of dn em now] join_existing[OF assms(1-3), of dn]
    by (cases "roster_rows d sid pid = []") simp_all
qed

text \<open>
  C8, as the claim states it, fails on what the second call returns. In \<open>db1\<close> a first
  join of \<open>u3@x.com\<close> under the name \<open>User Three\<close> stores that name and the email and
  the time of the call. A second join with the same participant id under the name
  \<open>Mallory\<close> answers 200 and leaves the store as it was, but the record it returns
  carries the name \<open>Mallory\<close>, no email and no join time: it is built from the second
  request, and the stored record still says \<open>User Three\<close>.
\<close>

theorem join_payload_counterexample:
  "find_participant
      (snd (join ''s1'' (Some ''u3@x.com'') (Some ''User Three'') (Some ''three@x.com'') ''t1'' db1))
      ''s1'' ''u3@x.com''
     = Some \<lparr>sp_session_id = ''s1'', participant_id = ''u3@x.com'', display_name = ''User Three'',
             email = ''three@x.com'', status = ''joined'', joined_at = ''t1'', submitted_at = None\<rparr>
   \<and> join ''s1'' (Some ''u3@x.com'') (Some ''Mallory'') None ''t2''
        (snd (join ''s1'' (Some ''u3@x.com'') (Some ''User Three'') (Some ''three@x.com'') ''t1'' db1))
     = (Inr (200, \<lparr>jd_sessionId = ''s1'', jd_sessionName = ''T1'',
                   jd_sessionState = ''voting'', jd_participantId = ''u3@x.com'',
                   jd_displayName = ''Mallory'', jd_email = None,
                   jd_status = ''joined'', jd_joinedAt = None\<rparr>),
        snd (join ''s1'' (Some ''u3@x.com'') (Some ''User Three'') (Some ''three@x.com'') ''t1'' db1))"
  by (simp add: join_def db1_def find_session_def find_participant_def insert_participant_def)

text \<open>
  C8, amended. \<open>join\<close> is idempotent on the roster. For a session that is not in state
  \<open>final\<close>, a participant id and a roster holding at most one row for the pair (its
  primary key), the first call succeeds and leaves exactly one row for the pair; a
  second call, with any display name and email, answers 200 and returns the store
  exactly as the first call left it, so the stored record is unchanged. The record in
  the 200 response is built from the second request, not read from the store: the
  request's display name, or the participant id when there is none, the status
  \<open>joined\<close>, no email and no join time. When the participant was new, the stored
  record is the one the first call wrote. In state \<open>final\<close> the call answers the
  session-finalized 403 and the store is unchanged.
\<close>

theorem join_idempotent:
  "(pid \<noteq> [] \<and> find_session d sid = Some s \<and> session_state s \<noteq> ''final''
     \<and> length (roster_rows d sid pid) \<le> 1 \<longrightarrow>
      (\<exists>code data. fst (join sid (Some pid) dn em now d) = Inr (code, data))
    \<and> length (roster_rows (snd (join sid (Some pid) dn em now d)) sid pid) = 1
    \<and> join sid (Some pid) dn' em' now' (snd (join sid (Some pid) dn em now d)) =
        (Inr (200, \<lparr>jd_sessionId = sid, jd_sessionName = session_name s,
                    jd_sessionState = session_state s, jd_participantId = pid,
                    jd_displayName = or_else dn' pid, jd_email = None,
                    jd_status = ''joined'', jd_joinedAt = None\<rparr>),
         snd (join sid (Some pid) dn em now d))
    \<and> (roster_rows d sid pid = [] \<longrightarrow>
         find_participant (snd (join sid (Some pid) dn em now d)) sid pid =
           Some \<lparr>sp_session_id = sid, participant_id = pid, display_name = or_else dn pid,
                 email = or_else em pid, status = ''joined'', joined_at = now, submitted_at = None\<rparr>))
   \<and> (pid \<noteq> [] \<and> find_session d sid = Some s \<and> session_state s = ''final'' \<longrightarrow>
        join sid (Some pid) dn em now d = (Inl SessionFinalized, d))"
proof (intro conjI impI)
  assume a: "pid \<noteq> [] \<and> find_session d sid = Some s \<and> session_state s \<noteq> ''final''
     \<and> length (roster_rows d sid pid) \<le> 1"
  then have p: "pid \<noteq> []" and f: "find_session d sid = Some s" and st: "session_state s \<noteq> ''final''"
    and le: "length (roster_rows d sid pid) \<le> 1" by simp_all
  let ?d1 = "snd (join sid (Some pid) dn em now d)"
  note one = join_rows_one[OF p f st le, of dn em now]
  show "\<exists>code data. fst (join sid (Some pid) dn em now d) = Inr (code, data)" by (rule one(3))
  show "length (roster_rows ?d1 sid pid) = 1" by (rule one(1))
  from one(1) have ne: "roster_rows ?d1 sid pid \<noteq> []" by auto
  show "join sid (Some pid) dn' em' now' ?d1 =
        (Inr (200, \<lparr>jd_sessionId = sid, jd_sessionName = session_name s,
                    jd_sessionState = session_state s, jd_participantId = pid,
                    jd_displayName = or_else dn' pid, jd_email = None,
                    jd_status = ''joined'', jd_joinedAt = None\<rparr>), ?d1)"
    by (rule join_existing[OF p one(2) st ne])
  {
    assume e: "roster_rows d sid pid = []"
    then have nf: "find (\<lambda>p. sp_session_id p = sid \<and> participant_id p = pid) (session_participants d) = None"
      by (auto simp: roster_rows_def find_None_iff filter_empty_conv)
    show "find_participant ?d1 sid pid =
           Some \<lparr>sp_session_id = sid, participant_id = pid, display_name = or_else dn pid,
                 email = or_else em pid, status = ''joined'', joined_at = now, submitted_at = None\<rparr>"
      using join_new[OF p f st e, of dn em now] nf
      by (simp add: find_participant_def find_append_case)
  }
next
  assume "pid \<noteq> [] \<and> find_session d sid = Some s \<and> session_state s = ''final''"
  then show "join sid (Some pid) dn em now d = (Inl SessionFinalized, d)"
    by (simp add: join_def)
qed

theorem join_idempotent_witness:
  "''u3@x.com'' \<noteq> [] \<and> find_session db1 ''s1'' = Some (hd (sessions db1))
   \<and> session_state (hd (sessions db1)) \<noteq> ''final''
   \<and> length (roster_rows db1 ''s1'' ''u3@x.com'') \<le> 1 \<and> roster_rows db1 ''s1'' ''u3@x.com'' = []
   \<and> length (roster_rows (snd (join ''s1'' (Some ''u3@x.com'') (Some ''User Three'') None ''t1'' db1))
        ''s1'' ''u3@x.com'') = 1
   \<and> join ''s1'' (Some ''u3@x.com'') (Some ''Mallory'') (Some ''mallory@x.com'') ''t2''
        (snd (join ''s1'' (Some ''u3@x.com'') (Some ''User Three'') None ''t1'' db1)) =
        (Inr (200, \<lparr>jd_sessionId = ''s1'', jd_sessionName = ''T1'',
                    jd_sessionState = ''voting'', jd_participantId = ''u3@x.com'',
                    jd_displayName = ''Mallory'', jd_email = None,
                    jd_status = ''joined'', jd_joinedAt = None\<rparr>),
         snd (join ''s1'' (Some ''u3@x.com'') (Some ''User Three'') None ''t1'' db1))
   \<and> find_participant (snd (join ''s1'' (Some ''u3@x.com'') (Some ''User Three'') None ''t1'' db1))
        ''s1'' ''u3@x.com'' =
        Some \<lparr>sp_session_id = ''s1'', participant_id = ''u3@x.com'', display_name = ''User Three'',
              email = ''u3@x.com'', status = ''joined'', joined_at = ''t1'', submitted_at = None\<rparr>
   \<and> map_option session_state (find_session (update_session_state ''final'' ''s1'' db1) ''s1'')
        = Some ''final''
   \<and> join ''s1'' (Some ''u3@x.com'') (Some ''User Three'') None ''t1''
        (update_session_state ''final'' ''s1'' db1)
       = (Inl SessionFinalized, update_session_state ''final'' ''s1'' db1)"
  using join_idempotent [of "''u3@x.com''" db1 "''s1''" "hd (sessions db1)" "Some ''User Three''" None
      "''t1''" "Some ''Mallory''" "Some ''mallory@x.com''" "''t2''"]
    join_idempotent [of "''u3@x.com''" "update_session_state ''final'' ''s1'' db1" "''s1''"
      "(hd (sessions db1))\<lparr>session_state := ''final''\<rparr>" "Some ''User Three''" None "''t1''"]
  by (simp add: db1_def find_session_def update_session_state_def roster_rows_def)

subsection \<open>Contribution store\<close>

lemma pg_get_rejected: "pg_get msg stmt params d = Inl (msg stmt)"
  by (simp add: pg_get_def pool_query_def)

lemma submitAll_rejected:
  assumes "pid \<noteq> []" and "subs \<noteq> []"
  shows "submitAll msg sid (Some pid) (Some subs) gen clock d = (Rejected (msg SelectSession), d)"
  using assms by (simp add: submitAll_def pg_get_rejected)

lemma submitAll_outcomes:
  "submitAll msg sid pidO subsO gen clock d
     = (Responded (Inl (MissingFields ''Missing required fields: participantId, submissions'')), d)
   \<or> submitAll msg sid pidO subsO gen clock d = (Responded (Inl EmptySubmission), d)
   \<or> submitAll msg sid pidO subsO gen clock d = (Rejected (msg SelectSession), d)"
  by (auto simp: submitAll_def pg_get_rejected split: option.splits)


text \<open>
  C7. The claim fails on the code as it stands. In \<open>db2\<close> session \<open>s1\<close> is in state
  \<open>published\<close> and \<open>u2@x.com\<close> has no contribution for topic \<open>t1\<close>. The submission of
  \<open>item1\<close> by \<open>u2@x.com\<close> for \<open>t1\<close> is rejected at the lookup of the session and
  leaves the store as it was, and so is the submission of \<open>item2\<close> that follows it:
  afterwards the triple has no row, not one row with the content of \<open>item2\<close>.
\<close>

theorem resubmission_saves_no_row:
  "map session_state (sessions db2) = [''published'']
   \<and> contribution_rows db2 ''s1'' ''t1'' ''u2@x.com'' = []
   \<and> submitAll msg ''s1'' (Some ''u2@x.com'') (Some [item1]) gen1 clock1 db2
       = (Rejected (msg SelectSession), db2)
   \<and> submitAll msg ''s1'' (Some ''u2@x.com'') (Some [item2]) gen2 clock2
         (snd (submitAll msg ''s1'' (Some ''u2@x.com'') (Some [item1]) gen1 clock1 db2))
       = (Rejected (msg SelectSession), db2)
   \<and> contribution_rows
         (snd (submitAll msg ''s1'' (Some ''u2@x.com'') (Some [item2]) gen2 clock2
                 (snd (submitAll msg ''s1'' (Some ''u2@x.com'') (Some [item1]) gen1 clock1 db2))))
         ''s1'' ''t1'' ''u2@x.com'' = []"
  by (simp add: submitAll_rejected db2_def db1_def update_session_state_def contribution_rows_def)

text \<open>
  C9. The claim fails on the code as it stands. In \<open>db1\<close> session \<open>s1\<close> is in state
  \<open>voting\<close>. A submission of \<open>u2@x.com\<close> is not answered with the invalid-session-state
  400: the lookup of the session, which stands before the check of the state, is
  rejected, and the handler sends no response. No call of \<open>submitAll\<close> is ever answered
  with the invalid-session-state 400. The store is unchanged.
\<close>

theorem submitAll_state_check_unreached:
  "map session_state (sessions db1) = [''voting'']
   \<and> submitAll msg ''s1'' (Some ''u2@x.com'') (Some [item1]) gen clock db1
       = (Rejected (msg SelectSession), db1)
   \<and> (\<forall>st. fst (submitAll msg sid pidO subsO gen clock d) \<noteq> Responded (Inl (InvalidSessionState st)))"
  using submitAll_outcomes [of msg sid pidO subsO gen clock d]
  by (auto simp: submitAll_rejected db1_def)

subsection \<open>Histories built by the front end\<close>

lemma sorted_filter_snoc:
  fixes ts :: "'a \<Rightarrow> 'b::linorder"
  assumes "sorted (map ts xs)" and "\<forall>x \<in> set xs. ts x \<le> ts y"
  shows "sorted (map ts (filter P xs @ [y]))"
proof -
  have "sorted (map ts (filter P xs))"
    using assms(1) by (simp add: sorted_filter)
  with assms(2) show ?thesis
    by (simp add: sorted_append)
qed

text \<open>
  A history is chronological when its timestamps ascend. Histories start empty, and a
  submission keeps them chronological as long as the clock does not fall behind the
  entries the history holds: in the component, where the entry follows those of the
  other participants, and in the stored metadata, where it is appended.
\<close>

lemma submit_row_chronological:
  assumes "sorted (map e_submittedAt (r_history r))"
    and "\<forall>e \<in> set (r_history r). e_submittedAt e \<le> now"
  shows "sorted (map e_submittedAt (r_history (submit_row user entryId now r)))"
proof -
  have "e_submittedAt (newEntry user entryId now (r_draft r)) = now"
    by (simp add: newEntry_def)
  with assms sorted_filter_snoc[of e_submittedAt "r_history r" "newEntry user entryId now (r_draft r)"]
  show ?thesis
    by (simp add: submit_row_def)
qed

lemma submit_row_own_entries:
  assumes "r_locked r" and "hasContribution (r_draft r)"
  shows "filter (\<lambda>e. e_participantId e = u_participantId user) (r_history (submit_row user entryId now r))
           = [newEntry user entryId now (r_draft r)]"
  using assms by (simp add: submit_row_def newEntry_def filter_empty_conv)

lemma merge_row_chronological:
  assumes "sorted (map e_submittedAt (r_history existing))"
    and "\<forall>e \<in> set (r_history existing). e_submittedAt e \<le> now"
    and "r_locked r" and "hasContribution (r_draft r)" and "r_id r = r_id existing"
  shows "r_history (merge_row user [submit_row user entryId now r] existing)
           = r_history existing @ [newEntry user entryId now (r_draft r)]"
    and "sorted (map e_submittedAt (r_history (merge_row user [submit_row user entryId now r] existing)))"
proof -
  have i: "r_id (submit_row user entryId now r) = r_id existing"
    using assms(5) by (simp add: submit_row_def)
  show h: "r_history (merge_row user [submit_row user entryId now r] existing)
           = r_history existing @ [newEntry user entryId now (r_draft r)]"
    using i submit_row_own_entries[OF assms(3,4), of user entryId now]
    by (simp add: merge_row_def)
  have "e_submittedAt (newEntry user entryId now (r_draft r)) = now"
    by (simp add: newEntry_def)
  with assms(1,2) show "sorted (map e_submittedAt (r_history (merge_row user [submit_row user entryId now r] existing)))"
    unfolding h by (simp add: sorted_append)
qed

subsection \<open>Report compiler\<close>

lemma sort_desc_sorted: "sorted_wrt (\<lambda>a b. key b \<le> key a) (sort_desc key xs)"
proof -
  have "sorted (map (\<lambda>x. - key x) (sort_key (\<lambda>x. - key x) xs))" by (rule sorted_sort_key)
  then show ?thesis by (simp add: sort_desc_def sorted_map)
qed

lemma sort_desc_stable: "filter (\<lambda>x. key x = k) (sort_desc key xs) = filter (\<lambda>x. key x = k) xs"
proof -
  have "filter (\<lambda>x. - key x = - k) (sort_key (\<lambda>x. - key x) xs) = filter (\<lambda>x. - key x = - k) xs"
    by (rule sort_key_stable)
  then show ?thesis by (simp add: sort_desc_def)
qed

lemma set_sort_desc [simp]: "set (sort_desc key xs) = set xs"
  by (simp add: sort_desc_def)

lemma js_add_exact:
  assumes "0 \<le> a" and "0 \<le> b" and "a + b \<le> 2 ^ 53"
  shows "js_add a b = a + b"
proof -
  have "(2::int) ^ 53 < 2 ^ 1024" by (rule power_strict_increasing) simp_all
  with assms have "\<not> js_infinity \<le> \<bar>a\<bar>" by (simp add: js_infinity_def)
  moreover from assms have "\<bar>a + b\<bar> \<le> 2 ^ 53" by simp
  ultimately show ?thesis by (simp add: js_add_def js_round_def)
qed

lemma foldl_js_add:
  assumes "0 \<le> a" and "\<forall>x \<in> set xs. 0 \<le> x" and "a + sum_list xs \<le> 2 ^ 53"
  shows "foldl js_add a xs = a + sum_list xs"
  using assms
proof (induction xs arbitrary: a)
  case Nil
  then show ?case by simp
next
  case (Cons x xs)
  then have x: "0 \<le> x" and s: "0 \<le> sum_list xs" by (simp_all add: sum_list_nonneg)
  with Cons.prems have "js_add a x = a + x" by (intro js_add_exact) simp_all
  moreover from Cons.prems x have "foldl js_add (a + x) xs = (a + x) + sum_list xs"
    by (intro Cons.IH) simp_all
  ultimately show ?case by simp
qed

lemma total_votes_fold:
  "rt_totalVotes (report_topic_of r) = foldl js_add 0 (map e_votes (r_history r))"
  by (simp add: report_topic_of_def Let_def foldl_map report_contribution_of_def)

lemma total_votes:
  assumes "\<forall>e \<in> set (r_history r). 0 \<le> e_votes e"
    and "sum_list (map e_votes (r_history r)) \<le> 2 ^ 53"
  shows "rt_totalVotes (report_topic_of r) = sum_list (map e_votes (r_history r))"
  using assms foldl_js_add[of 0 "map e_votes (r_history r)"]
  by (simp add: total_votes_fold)

lemma insort_desc_ties:
  fixes key :: "'a \<Rightarrow> int" and ts :: "'a \<Rightarrow> 'b::linorder"
  assumes "sorted_wrt (\<lambda>a b. key b < key a \<or> (key a = key b \<and> ts a \<le> ts b)) zs"
    and "\<forall>y \<in> set zs. ts x \<le> ts y"
  shows "sorted_wrt (\<lambda>a b. key b < key a \<or> (key a = key b \<and> ts a \<le> ts b))
           (insort_key (\<lambda>x. - key x) x zs)"
  using assms by (induction zs) (auto simp: set_insort_key)

lemma sort_desc_ties:
  fixes key :: "'a \<Rightarrow> int" and ts :: "'a \<Rightarrow> 'b::linorder"
  assumes "sorted (map ts xs)"
  shows "sorted_wrt (\<lambda>a b. key b < key a \<or> (key a = key b \<and> ts a \<le> ts b)) (sort_desc key xs)"
  using assms
proof (induction xs)
  case Nil
  then show ?case by (simp add: sort_desc_def)
next
  case (Cons x xs)
  then have "sorted_wrt (\<lambda>a b. key b < key a \<or> (key a = key b \<and> ts a \<le> ts b)) (sort_desc key xs)"
    and "\<forall>y \<in> set (sort_desc key xs). ts x \<le> ts y" by simp_all
  then show ?case
    using insort_desc_ties[of key ts "sort_desc key xs" x] by (simp add: sort_desc_def)
qed

lemma report_contributions_sorted:
  "rt_contributions (report_topic_of r) = sort_desc rc_votes (map report_contribution_of (r_history r))"
  by (simp add: report_topic_of_def Let_def)

lemma report_ties_chronological:
  assumes "sorted (map e_submittedAt (r_history r))"
  shows "sorted_wrt (\<lambda>a b. rc_votes b < rc_votes a
                          \<or> (rc_votes a = rc_votes b \<and> rc_submittedAt a \<le> rc_submittedAt b))
           (rt_contributions (report_topic_of r))"
proof -
  have "rc_submittedAt \<circ> report_contribution_of = e_submittedAt"
    by (rule ext) (simp add: report_contribution_of_def)
  with assms have "sorted (map rc_submittedAt (map report_contribution_of (r_history r)))"
    by (simp only: map_map)
  then show ?thesis
    unfolding report_contributions_sorted by (rule sort_desc_ties)
qed

lemma downloadReport_payload:
  "\<exists>allRows ps. downloadReport (Some cs) rows storage now = Inr (report_payload cs allRows ps now)"
  by (auto simp: downloadReport_def Let_def split: option.splits)

text \<open>
  C5. The report orders the topics by their total votes, largest first, and topics with
  equal totals keep the order of the rows, the original order of the topics. The total
  of a topic is the sum of the votes of its history, for votes that are counts (not
  negative) whose sum a double holds exactly (at most \<open>2\<^sup>5\<^sup>3\<close>). The contributions of a
  topic are ordered by their votes, largest first, and contributions with equal votes
  keep the order of the history; for a chronological history, which is what the front
  end builds, they are therefore ordered by votes descending and, among equal votes, by
  submission timestamp ascending. The payload of \<open>downloadReport\<close> is built from the rows
  it loads in this way.
\<close>

theorem report_sort_order:
  "sorted_wrt (\<lambda>a b. rt_totalVotes b \<le> rt_totalVotes a) (report_topics rows)
   \<and> filter (\<lambda>t. rt_totalVotes t = k) (report_topics rows)
       = filter (\<lambda>t. rt_totalVotes t = k) (map report_topic_of rows)
   \<and> ((\<forall>e \<in> set (r_history r). 0 \<le> e_votes e) \<and> sum_list (map e_votes (r_history r)) \<le> 2 ^ 53 \<longrightarrow>
        rt_totalVotes (report_topic_of r) = sum_list (map e_votes (r_history r)))
   \<and> sorted_wrt (\<lambda>a b. rc_votes b \<le> rc_votes a) (rt_contributions (report_topic_of r))
   \<and> filter (\<lambda>c. rc_votes c = n) (rt_contributions (report_topic_of r))
       = filter (\<lambda>c. rc_votes c = n) (map report_contribution_of (r_history r))
   \<and> (sorted (map e_submittedAt (r_history r)) \<longrightarrow>
        sorted_wrt (\<lambda>a b. rc_votes b < rc_votes a
                          \<or> (rc_votes a = rc_votes b \<and> rc_submittedAt a \<le> rc_submittedAt b))
          (rt_contributions (report_topic_of r)))
   \<and> (\<exists>allRows ps. downloadReport (Some cs) rows' storage now
                       = Inr (report_payload cs allRows ps now))
   \<and> rep_topics (report_payload cs rows ps now) = report_topics rows"
  using downloadReport_payload [of cs rows' storage now]
  by (simp add: report_topics_def report_contributions_sorted sort_desc_sorted
      sort_desc_stable total_votes report_ties_chronological [unfolded report_contributions_sorted]
      report_payload_def)

theorem report_sort_order_witness:
  "map e_votes (r_history row_3_10_5) = [3, 10, 5]
   \<and> sum_list (map e_votes (r_history row_3_10_5)) \<le> 2 ^ 53
   \<and> rt_totalVotes (report_topic_of row_3_10_5) = 18
   \<and> sorted (map e_submittedAt (r_history row_3_10_5))
   \<and> map rc_votes (rt_contributions (report_topic_of row_3_10_5)) = [10, 5, 3]
   \<and> map rt_totalVotes (map report_topic_of rows_15_30_5) = [15, 30, 5]
   \<and> map rt_totalVotes (report_topics rows_15_30_5) = [30, 15, 5]
   \<and> sorted (map e_submittedAt (r_history row_1_2_1))
   \<and> map rc_votes (rt_contributions (report_topic_of row_1_2_1)) = [2, 1, 1]
   \<and> map rc_submittedAt (rt_contributions (report_topic_of row_1_2_1))
       = [''2024-01-01T00:01:00.000Z'', ''2024-01-01T00:00:00.000Z'', ''2024-01-01T00:02:00.000Z'']
   \<and> sorted_wrt (\<lambda>a b. rc_votes b < rc_votes a
                      \<or> (rc_votes a = rc_votes b \<and> rc_submittedAt a \<le> rc_submittedAt b))
        (rt_contributions (report_topic_of row_1_2_1))"
  using report_sort_order [of rows_15_30_5 30 row_3_10_5 10]
    report_sort_order [of rows_15_30_5 30 row_1_2_1 1]
  by (simp add: report_topics_def report_topic_of_def row_of_def entry_at_def sort_desc_def
      report_contribution_of_def Let_def rows_15_30_5_def row_3_10_5_def row_1_2_1_def
      js_add_def js_round_def js_infinity_def)

subsection \<open>What the report and the listing expose\<close>








end
